theory Spec2Isabelle
  imports Complex_Main "HOL-Library.Multiset"
begin

section \<open>Customer lifetime value and churn scoring pipeline\<close>

text \<open>
  A shallow embedding of \<^verbatim>\<open>src/quick_start.py\<close>: the synthetic customer generator
  (\<^verbatim>\<open>generate_sample_customer_data\<close>), the aggregation step
  (\<^verbatim>\<open>perform_clv_analysis\<close>) and the retention rule selector
  (\<^verbatim>\<open>generate_retention_strategies\<close>).

  Conventions of the model.
  \<^item> A Python or NumPy float is a \<^typ>\<open>real\<close>; arithmetic is exact. Where an operation
    may have no finite result (a division by zero, the mean of an empty column) its value
    is a \<^typ>\<open>real option\<close>, \<open>None\<close> standing for the missing or non-finite result.
  \<^item> The NumPy global random generator is an abstract state \<open>'s\<close> together with a record of
    samplers, each taking the state and returning the drawn value and the next state.
  \<^item> The wall clock is a function \<open>clk\<close>: the \<open>k\<close>-th call of \<^verbatim>\<open>datetime.now()\<close> in a
    run returns \<open>clk k\<close>, in microseconds. A \<^verbatim>\<open>datetime\<close> is that integer, a
    \<^verbatim>\<open>timedelta\<close> a difference of two.
  \<^item> A pandas \<^verbatim>\<open>DataFrame\<close> is the list of its rows, in index order, with a flag
    saying whether it has the record's columns (a frame built from an empty list has none).
\<close>

subsection \<open>Rounding and formatting\<close>

definition round_half_even :: "real \<Rightarrow> int" where
  "round_half_even x =
     (let f = \<lfloor>x\<rfloor>; d = x - of_int f
      in if d < 1 / 2 then f
         else if 1 / 2 < d then f + 1
         else if even f then f else f + 1)"

definition py_round :: "real \<Rightarrow> nat \<Rightarrow> real" where
  \<comment> \<open>\<^verbatim>\<open>round(x, ndigits)\<close>: to the nearest multiple of \<open>10^-ndigits\<close>, ties to even.\<close>
  "py_round x ndigits = of_int (round_half_even (x * 10 ^ ndigits)) / 10 ^ ndigits"

definition digit_char :: "nat \<Rightarrow> char" where
  "digit_char n = ''0123456789'' ! n"

fun dec_digits :: "nat \<Rightarrow> string" where
  "dec_digits n =
     (if n < 10 then [digit_char n] else dec_digits (n div 10) @ [digit_char (n mod 10)])"

declare dec_digits.simps [simp del]

definition format_06d :: "nat \<Rightarrow> string" where
  \<comment> \<open>The format specification \<^verbatim>\<open>:06d\<close>: zero padding to width six, never truncating.\<close>
  "format_06d n = (let ds = dec_digits n in replicate (6 - length ds) (CHR ''0'') @ ds)"

subsection \<open>Data model\<close>

datatype risk = High | Medium | Low

record customer =
  customer_id :: string
  acquisition_date :: int
  tenure_days :: int
  monthly_spend :: real
  frequency :: int
  recency :: real
  avg_order_value :: "real option"
  email_opens :: int
  support_tickets :: int
  app_sessions :: int
  churn_probability :: real
  predicted_clv :: real
  risk_segment :: risk

subsection \<open>The random source and the clock\<close>

record 's rng_ops =
  np_seed :: "nat \<Rightarrow> 's"
  np_randint :: "int \<Rightarrow> int \<Rightarrow> 's \<Rightarrow> int \<times> 's"
  np_lognormal :: "real \<Rightarrow> real \<Rightarrow> 's \<Rightarrow> real \<times> 's"
  np_poisson :: "real \<Rightarrow> 's \<Rightarrow> int \<times> 's"
  np_exponential :: "real \<Rightarrow> 's \<Rightarrow> real \<times> 's"
  np_binomial :: "int \<Rightarrow> real \<Rightarrow> 's \<Rightarrow> int \<times> 's"
  np_random :: "'s \<Rightarrow> real \<times> 's"

type_synonym 's world = "'s \<times> nat"
  \<comment> \<open>the generator state and the number of clock reads made so far\<close>

definition datetime_now :: "(nat \<Rightarrow> int) \<Rightarrow> 's world \<Rightarrow> int \<times> 's world" where
  "datetime_now clk w = (clk (snd w), (fst w, Suc (snd w)))"

definition draw :: "('s \<Rightarrow> 'a \<times> 's) \<Rightarrow> 's world \<Rightarrow> 'a \<times> 's world" where
  "draw sampler w = (fst (sampler (fst w)), (snd (sampler (fst w)), snd w))"

definition day_us :: int where
  "day_us = 86400000000"

definition timedelta_days :: "int \<Rightarrow> int" where
  "timedelta_days d = d * day_us"

definition td_days :: "int \<Rightarrow> int" where
  \<comment> \<open>The \<^verbatim>\<open>.days\<close> attribute of a normalised \<^verbatim>\<open>timedelta\<close>: floor division.\<close>
  "td_days delta = delta div day_us"

subsection \<open>One customer\<close>

text \<open>
  What one iteration of the loop reads from the outside, in the order in which the source
  reads it (lines 86 to 108): the clock, the seven sampler calls, the clock again for
  \<^verbatim>\<open>tenure_days\<close>, and the uniform draw inside \<^verbatim>\<open>churn_score\<close>.
\<close>

record draws =
  d_now_acq :: int
  d_offset :: int
  d_spend :: real
  d_poisson :: int
  d_recency :: real
  d_opens :: int
  d_tickets :: int
  d_sessions :: int
  d_now_tenure :: int
  d_noise :: real

definition draw_customer :: "'s rng_ops \<Rightarrow> (nat \<Rightarrow> int) \<Rightarrow> 's world \<Rightarrow> draws \<times> 's world" where
  "draw_customer R clk w0 =
     (let (t1, w1) = datetime_now clk w0;
          (off, w2) = draw (np_randint R 30 1095) w1;
          (ms, w3) = draw (np_lognormal R 5.5 1.0) w2;
          (fr, w4) = draw (np_poisson R 3) w3;
          (rc, w5) = draw (np_exponential R 30) w4;
          (eo, w6) = draw (np_binomial R 20 0.3) w5;
          (st, w7) = draw (np_poisson R 0.5) w6;
          (ap, w8) = draw (np_poisson R 10) w7;
          (t2, w9) = datetime_now clk w8;
          (u, w10) = draw (np_random R) w9
      in (\<lparr>d_now_acq = t1, d_offset = off, d_spend = ms, d_poisson = fr, d_recency = rc,
           d_opens = eo, d_tickets = st, d_sessions = ap, d_now_tenure = t2, d_noise = u\<rparr>,
          w10))"

definition np_true_divide :: "real \<Rightarrow> int \<Rightarrow> real option" where
  \<comment> \<open>The operator \<^verbatim>\<open>/\<close> on a float and an integer. A zero divisor has no finite result:
      Python raises \<^verbatim>\<open>ZeroDivisionError\<close>, a NumPy scalar gives a non-finite value.\<close>
  "np_true_divide x k = (if k = 0 then None else Some (x / of_int k))"

definition avg_order_value_of :: "real \<Rightarrow> int \<Rightarrow> real option" where
  \<comment> \<open>line 100\<close>
  "avg_order_value_of ms fr = (if fr > 0 then np_true_divide ms fr else Some 0)"

text \<open>The five summands of \<^verbatim>\<open>churn_score\<close> (lines 104 to 108), named as the source's comments do.\<close>

definition recency_effect :: "real \<Rightarrow> real" where
  "recency_effect rc = 0.3 * min (rc / 90) 1.0"

definition tenure_effect :: "int \<Rightarrow> real" where
  "tenure_effect tenure = 0.2 * max 0 ((60 - of_int tenure) / 60)"

definition frequency_effect :: "int \<Rightarrow> real" where
  "frequency_effect fr = 0.2 * max 0 ((5 - of_int fr) / 5)"

definition support_burden :: "int \<Rightarrow> real" where
  "support_burden st = 0.1 * min (of_int st / 3) 1.0"

definition random_noise :: "real \<Rightarrow> real" where
  "random_noise u = 0.2 * u"

definition churn_score :: "real \<Rightarrow> int \<Rightarrow> int \<Rightarrow> int \<Rightarrow> real \<Rightarrow> real" where
  "churn_score rc tenure fr st u =
     recency_effect rc + tenure_effect tenure + frequency_effect fr + support_burden st
     + random_noise u"

definition predicted_lifespan :: "real \<Rightarrow> real" where
  "predicted_lifespan cs = max 30 (365 * (1 - cs))"

definition clv_of :: "real \<Rightarrow> real \<Rightarrow> real" where
  \<comment> \<open>lines 112 and 113\<close>
  "clv_of ms cs = ms * (predicted_lifespan cs / 30) * (1 - cs * 0.5)"

definition risk_segment_of :: "real \<Rightarrow> risk" where
  \<comment> \<open>line 128\<close>
  "risk_segment_of cs = (if cs > 0.7 then High else if cs > 0.4 then Medium else Low)"

definition tenure_of :: "draws \<Rightarrow> int" where
  \<comment> \<open>line 99, with \<^verbatim>\<open>acquisition_date\<close> of line 86\<close>
  "tenure_of d = td_days (d_now_tenure d - (d_now_acq d - timedelta_days (d_offset d)))"

definition frequency_of :: "draws \<Rightarrow> int" where
  "frequency_of d = d_poisson d + 1"

definition score_of :: "draws \<Rightarrow> real" where
  "score_of d = churn_score (d_recency d) (tenure_of d) (frequency_of d) (d_tickets d) (d_noise d)"

definition customer_record :: "nat \<Rightarrow> draws \<Rightarrow> customer" where
  "customer_record i d =
     \<lparr>customer_id = ''CUST_'' @ format_06d (i + 1),
      acquisition_date = d_now_acq d - timedelta_days (d_offset d),
      tenure_days = tenure_of d,
      monthly_spend = py_round (d_spend d) 2,
      frequency = frequency_of d,
      recency = py_round (d_recency d) 1,
      avg_order_value =
        map_option (\<lambda>v. py_round v 2) (avg_order_value_of (d_spend d) (frequency_of d)),
      email_opens = d_opens d,
      support_tickets = d_tickets d,
      app_sessions = d_sessions d,
      churn_probability = py_round (score_of d) 3,
      predicted_clv = py_round (clv_of (d_spend d) (score_of d)) 2,
      risk_segment = risk_segment_of (score_of d)\<rparr>"

subsection \<open>The generation loop\<close>

text \<open>
  \<open>draws_loop\<close> is the loop of lines 83 to 129 seen from the outside: \<open>k\<close> iterations
  starting at index \<open>i\<close>, threading the world. \<open>generate_loop\<close> is the same loop building
  the list of records it appends.
\<close>

primrec draws_loop :: "'s rng_ops \<Rightarrow> (nat \<Rightarrow> int) \<Rightarrow> nat \<Rightarrow> 's world \<Rightarrow> draws list \<times> 's world" where
  "draws_loop R clk 0 w = ([], w)"
| "draws_loop R clk (Suc k) w =
     (let (d, w') = draw_customer R clk w;
          (ds, w'') = draws_loop R clk k w'
      in (d # ds, w''))"

primrec generate_loop ::
  "'s rng_ops \<Rightarrow> (nat \<Rightarrow> int) \<Rightarrow> nat \<Rightarrow> nat \<Rightarrow> 's world \<Rightarrow> customer list \<times> 's world" where
  "generate_loop R clk 0 i w = ([], w)"
| "generate_loop R clk (Suc k) i w =
     (let (d, w') = draw_customer R clk w;
          (rs, w'') = generate_loop R clk k (Suc i) w'
      in (customer_record i d # rs, w''))"

definition seeded :: "'s rng_ops \<Rightarrow> nat \<Rightarrow> 's world \<Rightarrow> 's world" where
  \<comment> \<open>\<^verbatim>\<open>np.random.seed(seed)\<close> overwrites the generator state and leaves the clock alone.\<close>
  "seeded R seed w = (np_seed R seed, snd w)"

definition generate_records ::
  "'s rng_ops \<Rightarrow> (nat \<Rightarrow> int) \<Rightarrow> nat \<Rightarrow> nat \<Rightarrow> 's world \<Rightarrow> customer list" where
  "generate_records R clk seed n w = fst (generate_loop R clk n 0 (seeded R seed w))"

definition generate_draws ::
  "'s rng_ops \<Rightarrow> (nat \<Rightarrow> int) \<Rightarrow> nat \<Rightarrow> nat \<Rightarrow> 's world \<Rightarrow> draws list" where
  "generate_draws R clk seed n w = fst (draws_loop R clk n (seeded R seed w))"

subsection \<open>Frames and series\<close>

datatype error = KeyError string

record frame =
  has_columns :: bool
  rows :: "customer list"

definition pd_DataFrame :: "customer list \<Rightarrow> frame" where
  \<comment> \<open>\<^verbatim>\<open>pd.DataFrame(list_of_dicts)\<close>: the columns are the keys of the dicts, so an empty
      list gives a frame with no columns at all.\<close>
  "pd_DataFrame xs = \<lparr>has_columns = (xs \<noteq> []), rows = xs\<rparr>"

definition column :: "string \<Rightarrow> (customer \<Rightarrow> 'a) \<Rightarrow> frame \<Rightarrow> error + 'a list" where
  \<comment> \<open>\<^verbatim>\<open>df[name]\<close>\<close>
  "column name field df =
     (if has_columns df then Inr (map field (rows df)) else Inl (KeyError name))"

definition boolean_index :: "bool list \<Rightarrow> 'a list \<Rightarrow> 'a list" where
  \<comment> \<open>\<^verbatim>\<open>df[mask]\<close>: the rows whose mask entry is true, in order\<close>
  "boolean_index flags xs = map snd (filter fst (zip flags xs))"

definition mask_and :: "bool list \<Rightarrow> bool list \<Rightarrow> bool list" where
  "mask_and m1 m2 = map (\<lambda>(a, b). a \<and> b) (zip m1 m2)"

definition series_sum :: "real list \<Rightarrow> real" where
  "series_sum xs = sum_list xs"

definition series_mean :: "real list \<Rightarrow> real option" where
  \<comment> \<open>the mean of an empty series is NaN\<close>
  "series_mean xs = (if xs = [] then None else Some (sum_list xs / of_nat (length xs)))"

definition series_median :: "real list \<Rightarrow> real option" where
  "series_median xs =
     (if xs = [] then None
      else let s = sort xs; n = length xs
           in if odd n then Some (s ! (n div 2))
              else Some ((s ! (n div 2 - 1) + s ! (n div 2)) / 2))"

definition series_quantile :: "real list \<Rightarrow> real \<Rightarrow> real option" where
  \<comment> \<open>\<^verbatim>\<open>Series.quantile(q)\<close> with the default linear interpolation between the two
      order statistics around position \<open>q * (n - 1)\<close>; NaN on an empty series.\<close>
  "series_quantile xs q =
     (if xs = [] then None
      else let s = sort xs; n = length xs;
               h = q * of_nat (n - 1);
               lo = nat \<lfloor>h\<rfloor>;
               hi = min (lo + 1) (n - 1)
           in Some (s ! lo + (s ! hi - s ! lo) * (h - of_nat lo)))"

definition gt_series :: "real list \<Rightarrow> real option \<Rightarrow> bool list" where
  \<comment> \<open>\<^verbatim>\<open>series > scalar\<close>; every comparison with NaN is false\<close>
  "gt_series xs t = map (\<lambda>v. case t of None \<Rightarrow> False | Some b \<Rightarrow> v > b) xs"

definition nlargest :: "nat \<Rightarrow> ('a \<Rightarrow> real) \<Rightarrow> 'a list \<Rightarrow> 'a list" where
  \<comment> \<open>\<^verbatim>\<open>df.nlargest(n, col)\<close> with \<^verbatim>\<open>keep='first'\<close>: the first \<open>n\<close> rows of the stable
      descending sort\<close>
  "nlargest n key xs = take n (sort_key (\<lambda>r. - key r) xs)"

subsection \<open>The analysis\<close>

record segment_row =
  seg :: risk
  clv_mean :: "real option"
  clv_median :: "real option"
  clv_count :: nat
  churn_mean :: "real option"
  spend_mean :: "real option"
  tenure_mean :: "real option"

definition round2 :: "real option \<Rightarrow> real option" where
  "round2 v = map_option (\<lambda>x. py_round x 2) v"

definition segment_row_of :: "customer list \<Rightarrow> risk \<Rightarrow> segment_row" where
  "segment_row_of xs g =
     (let grp = filter (\<lambda>r. risk_segment r = g) xs
      in \<lparr>seg = g,
          clv_mean = round2 (series_mean (map predicted_clv grp)),
          clv_median = round2 (series_median (map predicted_clv grp)),
          clv_count = length grp,
          churn_mean = round2 (series_mean (map churn_probability grp)),
          spend_mean = round2 (series_mean (map monthly_spend grp)),
          tenure_mean = round2 (series_mean (map (\<lambda>r. of_int (tenure_days r)) grp))\<rparr>)"

definition groupby_risk_agg :: "customer list \<Rightarrow> segment_row list" where
  \<comment> \<open>lines 144 to 149: one row per segment that occurs, keys in sorted order
      (\<^verbatim>\<open>'High' < 'Low' < 'Medium'\<close>)\<close>
  "groupby_risk_agg xs =
     map (segment_row_of xs) (filter (\<lambda>g. \<exists>r \<in> set xs. risk_segment r = g) [High, Low, Medium])"

record analysis_report =
  segment_stats :: "segment_row list"
  top_customers :: "(string \<times> real \<times> risk \<times> real) list"
  at_risk_valuable :: "customer list"
  at_risk_count :: nat
  at_risk_clv :: real

record analysis_results =
  total_customers :: nat
  avg_clv :: "real option"
  high_risk_count :: nat
  at_risk_value :: real

definition at_risk_rows :: "customer list \<Rightarrow> customer list" where
  \<comment> \<open>lines 161 and 162\<close>
  "at_risk_rows xs =
     boolean_index
       (mask_and (gt_series (map predicted_clv xs) (series_quantile (map predicted_clv xs) 0.8))
                 (gt_series (map churn_probability xs) (Some 0.6)))
       xs"

definition top_rows :: "customer list \<Rightarrow> (string \<times> real \<times> risk \<times> real) list" where
  \<comment> \<open>line 155\<close>
  "top_rows xs =
     map (\<lambda>r. (customer_id r, predicted_clv r, risk_segment r, monthly_spend r))
         (nlargest 10 predicted_clv xs)"

definition perform_clv_analysis :: "frame \<Rightarrow> error + (analysis_report \<times> analysis_results)" where
  "perform_clv_analysis df =
     (if \<not> has_columns df then Inl (KeyError ''risk_segment'')
      else let xs = rows df; at_risk = at_risk_rows xs
           in Inr (\<lparr>segment_stats = groupby_risk_agg xs,
                     top_customers = top_rows xs,
                     at_risk_valuable = at_risk,
                     at_risk_count = length at_risk,
                     at_risk_clv = series_sum (map predicted_clv at_risk)\<rparr>,
                    \<lparr>total_customers = length xs,
                     avg_clv = series_mean (map predicted_clv xs),
                     high_risk_count = length (filter (\<lambda>r. risk_segment r = High) xs),
                     at_risk_value = series_sum (map predicted_clv at_risk)\<rparr>))"

definition generate_sample_customer_data_n ::
  "'s rng_ops \<Rightarrow> (nat \<Rightarrow> int) \<Rightarrow> nat \<Rightarrow> nat \<Rightarrow> 's world \<Rightarrow> error + frame" where
  \<comment> \<open>the whole function with its two constants as parameters; the summary lines 132 to 134
      read columns of the frame\<close>
  "generate_sample_customer_data_n R clk seed n w =
     (let df = pd_DataFrame (generate_records R clk seed n w)
      in case column ''predicted_clv'' predicted_clv df of
           Inl e \<Rightarrow> Inl e
         | Inr _ \<Rightarrow> Inr df)"

definition generate_sample_customer_data ::
  "'s rng_ops \<Rightarrow> (nat \<Rightarrow> int) \<Rightarrow> 's world \<Rightarrow> error + frame" where
  "generate_sample_customer_data R clk w = generate_sample_customer_data_n R clk 42 10000 w"

subsection \<open>Retention strategies\<close>

record strategy_row =
  s_customer_id :: string
  s_clv :: real
  s_churn_risk :: real
  s_strategy :: string

definition choose_strategy :: "customer \<Rightarrow> string" where
  \<comment> \<open>lines 185 to 192\<close>
  "choose_strategy c =
     (if recency c > 60 then ''Re-engagement email series with personalized offers''
      else if support_tickets c > 2 then ''Proactive customer success outreach''
      else if email_opens c < 5 then ''Multi-channel communication (SMS, push notifications)''
      else ''Loyalty program enrollment with exclusive benefits'')"

definition strategy_for :: "customer \<Rightarrow> strategy_row" where
  "strategy_for c =
     \<lparr>s_customer_id = customer_id c, s_clv = predicted_clv c,
      s_churn_risk = churn_probability c, s_strategy = choose_strategy c\<rparr>"

definition generate_retention_strategies :: "frame \<Rightarrow> error + strategy_row list" where
  "generate_retention_strategies df =
     (case column ''risk_segment'' risk_segment df of
        Inl e \<Rightarrow> Inl e
      | Inr segs \<Rightarrow>
          let high_risk = boolean_index (map (\<lambda>g. g = High) segs) (rows df)
          in Inr (map strategy_for (take 5 high_risk)))"

subsection \<open>What the environment guarantees\<close>

text \<open>
  The documented ranges of the NumPy samplers the generator calls (nothing is assumed about
  \<^verbatim>\<open>lognormal\<close>), and a clock that does not run backwards.
\<close>

definition rng_ok :: "'s rng_ops \<Rightarrow> bool" where
  "rng_ok R \<longleftrightarrow>
     (\<forall>lo hi s. lo < hi \<longrightarrow> lo \<le> fst (np_randint R lo hi s) \<and> fst (np_randint R lo hi s) < hi)
     \<and> (\<forall>lam s. 0 \<le> fst (np_poisson R lam s))
     \<and> (\<forall>scale s. 0 \<le> fst (np_exponential R scale s))
     \<and> (\<forall>n p s. 0 \<le> n \<longrightarrow> 0 \<le> fst (np_binomial R n p s) \<and> fst (np_binomial R n p s) \<le> n)
     \<and> (\<forall>s. 0 \<le> fst (np_random R s) \<and> fst (np_random R s) < 1)"

definition clock_ok :: "(nat \<Rightarrow> int) \<Rightarrow> bool" where
  "clock_ok clk \<longleftrightarrow> (\<forall>k. clk k \<le> clk (Suc k))"

definition clock_steady :: "(nat \<Rightarrow> int) \<Rightarrow> bool" where
  \<comment> \<open>no step back, and less than a day between two consecutive reads\<close>
  "clock_steady clk \<longleftrightarrow> (\<forall>k. clk k \<le> clk (Suc k) \<and> clk (Suc k) - clk k < day_us)"

definition draws_ok :: "draws \<Rightarrow> bool" where
  "draws_ok d \<longleftrightarrow>
     30 \<le> d_offset d \<and> d_offset d < 1095 \<and> 0 \<le> d_poisson d \<and> 0 \<le> d_recency d
     \<and> 0 \<le> d_opens d \<and> d_opens d \<le> 20 \<and> 0 \<le> d_tickets d \<and> 0 \<le> d_sessions d
     \<and> d_now_acq d \<le> d_now_tenure d \<and> 0 \<le> d_noise d \<and> d_noise d < 1"

subsection \<open>A replaying random source\<close>

text \<open>
  A concrete generator for evaluating the model: its state is a tape of numbers, each
  sampler consumes the head of the tape and maps it into its own range. Seeding loads the
  tape.
\<close>

definition tape_head :: "real list \<Rightarrow> real" where
  "tape_head s = (case s of [] \<Rightarrow> 0 | x # _ \<Rightarrow> x)"

definition replay_rng :: "real list \<Rightarrow> real list rng_ops" where
  "replay_rng tape =
     \<lparr>np_seed = (\<lambda>seed. tape),
      np_randint = (\<lambda>lo hi s. (if lo < hi then lo + \<lfloor>tape_head s\<rfloor> mod (hi - lo) else lo, tl s)),
      np_lognormal = (\<lambda>mean sigma s. (\<bar>tape_head s\<bar>, tl s)),
      np_poisson = (\<lambda>lam s. (\<bar>\<lfloor>tape_head s\<rfloor>\<bar>, tl s)),
      np_exponential = (\<lambda>scale s. (\<bar>tape_head s\<bar>, tl s)),
      np_binomial = (\<lambda>n p s. (if 0 \<le> n then \<lfloor>tape_head s\<rfloor> mod (n + 1) else 0, tl s)),
      np_random = (\<lambda>s. (tape_head s - of_int \<lfloor>tape_head s\<rfloor>, tl s))\<rparr>"

definition fixed_clock :: "int \<Rightarrow> nat \<Rightarrow> int" where
  \<comment> \<open>a clock started at \<open>t0\<close> that advances one microsecond per read\<close>
  "fixed_clock t0 k = t0 + int k"

definition boundary_tape :: "real list" where
  \<comment> \<open>offset 30, spend 100, frequency 1, recency 95, 3 opens, 3 tickets, 10 sessions,
      noise 0.202: the score is 0.3 + 0.1 + 0.16 + 0.1 + 0.0404 = 0.7004\<close>
  "boundary_tape = [0, 100, 0, 95, 3, 3, 10, 0.202]"

definition sample_tape :: "real list" where
  \<comment> \<open>two customers\<close>
  "sample_tape = [70, 250, 2, 12.34, 6, 0, 9, 0.5,  400, 80.5, 4, 75, 2, 1, 11, 0.25]"

subsection \<open>A logging random source\<close>

datatype call =
  Randint int int | Lognormal real real | Poisson real | Exponential real
  | Binomial int real | Random

definition logged :: "call \<Rightarrow> ('s \<Rightarrow> 'a \<times> 's) \<Rightarrow> 's \<times> call list \<Rightarrow> 'a \<times> ('s \<times> call list)" where
  "logged c sampler sl = (fst (sampler (fst sl)), (snd (sampler (fst sl)), snd sl @ [c]))"

definition traced :: "'s rng_ops \<Rightarrow> ('s \<times> call list) rng_ops" where
  \<comment> \<open>the same generator, writing down every sampler call it serves\<close>
  "traced R =
     \<lparr>np_seed = (\<lambda>seed. (np_seed R seed, [])),
      np_randint = (\<lambda>lo hi. logged (Randint lo hi) (np_randint R lo hi)),
      np_lognormal = (\<lambda>mean sigma. logged (Lognormal mean sigma) (np_lognormal R mean sigma)),
      np_poisson = (\<lambda>lam. logged (Poisson lam) (np_poisson R lam)),
      np_exponential = (\<lambda>scale. logged (Exponential scale) (np_exponential R scale)),
      np_binomial = (\<lambda>n p. logged (Binomial n p) (np_binomial R n p)),
      np_random = logged Random (np_random R)\<rparr>"

definition customer_calls :: "call list" where
  "customer_calls =
     [Randint 30 1095, Lognormal 5.5 1, Poisson 3, Exponential 30, Binomial 20 0.3,
      Poisson 0.5, Poisson 10, Random]"

definition call_log ::
  "'s rng_ops \<Rightarrow> (nat \<Rightarrow> int) \<Rightarrow> nat \<Rightarrow> nat \<Rightarrow> 's world \<Rightarrow> call list" where
  \<comment> \<open>the calls served during one run of the generator\<close>
  "call_log R clk seed n w =
     snd (fst (snd (generate_loop (traced R) clk n 0 (seeded (traced R) seed ((fst w, []), snd w)))))"

definition without_date :: "customer \<Rightarrow> customer" where
  "without_date r = r\<lparr>acquisition_date := 0\<rparr>"

subsection \<open>The selector and the at-risk subset as the specification words them\<close>

fun first_match :: "(('a \<Rightarrow> bool) \<times> string) list \<Rightarrow> string \<Rightarrow> 'a \<Rightarrow> string" where
  "first_match [] dflt c = dflt"
| "first_match ((p, s) # rules) dflt c = (if p c then s else first_match rules dflt c)"

definition strategy_rules :: "((customer \<Rightarrow> bool) \<times> string) list" where
  "strategy_rules =
     [(\<lambda>c. recency c > 60, ''Re-engagement email series with personalized offers''),
      (\<lambda>c. support_tickets c > 2, ''Proactive customer success outreach''),
      (\<lambda>c. email_opens c < 5, ''Multi-channel communication (SMS, push notifications)'')]"

definition default_strategy :: string where
  "default_strategy = ''Loyalty program enrollment with exclusive benefits''"

definition four_strategies :: "string list" where
  "four_strategies = map snd strategy_rules @ [default_strategy]"

definition selector_spec :: "customer list \<Rightarrow> strategy_row list" where
  "selector_spec xs =
     map (\<lambda>c. \<lparr>s_customer_id = customer_id c, s_clv = predicted_clv c,
               s_churn_risk = churn_probability c,
               s_strategy = first_match strategy_rules default_strategy c\<rparr>)
         (take 5 (filter (\<lambda>c. risk_segment c = High) xs))"

definition above_percentile80 :: "customer list \<Rightarrow> customer \<Rightarrow> bool" where
  "above_percentile80 xs r \<longleftrightarrow>
     (case series_quantile (map predicted_clv xs) 0.8 of
        None \<Rightarrow> False
      | Some p \<Rightarrow> predicted_clv r > p)"

definition at_risk_valuable_spec :: "customer list \<Rightarrow> customer list" where
  "at_risk_valuable_spec xs =
     filter (\<lambda>r. above_percentile80 xs r \<and> churn_probability r > 0.6) xs"

subsection \<open>Sample records\<close>

definition sample_customer :: "nat \<Rightarrow> real \<Rightarrow> real \<Rightarrow> real \<Rightarrow> int \<Rightarrow> int \<Rightarrow> customer" where
  "sample_customer i clv churn rc st eo =
     \<lparr>customer_id = ''CUST_'' @ format_06d (i + 1), acquisition_date = 0, tenure_days = 100,
      monthly_spend = 50, frequency = 2, recency = rc, avg_order_value = Some 25,
      email_opens = eo, support_tickets = st, app_sessions = 7,
      churn_probability = churn, predicted_clv = clv,
      risk_segment = risk_segment_of churn\<rparr>"

definition sample_rows :: "customer list" where
  "sample_rows =
     [sample_customer 0 100 0.75 70 0 10,
      sample_customer 1 200 0.1 5 0 10,
      sample_customer 2 300 0.75 10 3 10,
      sample_customer 3 400 0.2 10 0 2,
      sample_customer 4 500 0.8 10 0 2]"

definition ramp_rows :: "customer list" where
  \<comment> \<open>twelve customers with values 0, 10, .., 110\<close>
  "ramp_rows = map (\<lambda>i. sample_customer i (10 * of_nat i) 0.5 10 0 10) [0..<12]"

definition sample_frame :: frame where
  "sample_frame = pd_DataFrame sample_rows"

definition empty_rows_frame :: frame where
  \<comment> \<open>a frame that has the columns and no rows, such as \<^verbatim>\<open>df.head(0)\<close>\<close>
  "empty_rows_frame = \<lparr>has_columns = True, rows = []\<rparr>"

section \<open>Properties\<close>

subsection \<open>Rounding\<close>

lemma round_half_even_ge:
  assumes "of_int k \<le> x"
  shows "k \<le> round_half_even x"
proof -
  have "k \<le> \<lfloor>x\<rfloor>" using assms by (simp add: le_floor_iff)
  then show ?thesis unfolding round_half_even_def Let_def by auto
qed

lemma round_half_even_le:
  assumes "x \<le> of_int k"
  shows "round_half_even x \<le> k"
proof (cases "x = of_int k")
  case True
  then show ?thesis unfolding round_half_even_def Let_def by simp
next
  case False
  then have "x < of_int k" using assms by simp
  then have "\<lfloor>x\<rfloor> < k" by (simp add: floor_less_iff)
  moreover have "\<lfloor>x\<rfloor> \<le> k" using assms by (simp add: floor_le_iff)
  ultimately show ?thesis unfolding round_half_even_def Let_def by auto
qed

lemma round_half_even_of_int: "round_half_even (of_int k) = k"
  unfolding round_half_even_def Let_def by simp

lemma py_round_nonneg: "0 \<le> x \<Longrightarrow> 0 \<le> py_round x n"
  using round_half_even_ge[of 0 "x * 10 ^ n"] by (simp add: py_round_def)

lemma py_round_ge: "of_int k / 10 ^ n \<le> x \<Longrightarrow> of_int k / 10 ^ n \<le> py_round x n"
  using round_half_even_ge[of k "x * 10 ^ n"] by (simp add: py_round_def field_simps)

lemma py_round_le: "x \<le> of_int k / 10 ^ n \<Longrightarrow> py_round x n \<le> of_int k / 10 ^ n"
  using round_half_even_le[of "x * 10 ^ n" k] by (simp add: py_round_def field_simps)

lemma py_round_pos_imp: "0 < py_round x n \<Longrightarrow> 0 < x"
  using py_round_le[of x 0 n] by (cases "0 < x") auto

lemma py_round_gt_imp:
  assumes "of_int k / 10 ^ n < py_round x n"
  shows "of_int k / 10 ^ n < x"
  using py_round_le[of x k n] assms by (cases "of_int k / 10 ^ n < x") auto

lemma py_round_lt_imp:
  assumes "py_round x n < of_int k / 10 ^ n"
  shows "x < of_int k / 10 ^ n"
  using py_round_ge[of k n x] assms by (cases "x < of_int k / 10 ^ n") auto

lemma round3_thresholds:
  "0.7 < py_round x 3 \<Longrightarrow> 0.7 < x"
  "0.7 < x \<Longrightarrow> 0.7 \<le> py_round x 3"
  "x \<le> 0.7 \<Longrightarrow> py_round x 3 \<le> 0.7"
  "py_round x 3 < 0.7 \<Longrightarrow> x < 0.7"
  "0.4 < py_round x 3 \<Longrightarrow> 0.4 < x"
  "0.4 < x \<Longrightarrow> 0.4 \<le> py_round x 3"
  "x \<le> 0.4 \<Longrightarrow> py_round x 3 \<le> 0.4"
  "py_round x 3 < 0.4 \<Longrightarrow> x < 0.4"
  using py_round_gt_imp[of 700 3 x] py_round_ge[of 700 3 x] py_round_le[of x 700 3]
    py_round_lt_imp[of x 3 700]
    py_round_gt_imp[of 400 3 x] py_round_ge[of 400 3 x] py_round_le[of x 400 3]
    py_round_lt_imp[of x 3 400]
  by simp_all

subsection \<open>The loop and what it draws\<close>

lemma draw_customer_ok:
  assumes "rng_ok R" "clock_ok clk"
  shows "draws_ok (fst (draw_customer R clk w))"
  using assms
  by (simp add: draws_ok_def draw_customer_def rng_ok_def clock_ok_def datetime_now_def draw_def
      split_beta Let_def)

lemma draws_loop_ok:
  assumes "rng_ok R" "clock_ok clk"
  shows "\<forall>d \<in> set (fst (draws_loop R clk k w)). draws_ok d"
proof (induction k arbitrary: w)
  case 0
  show ?case by simp
next
  case (Suc k)
  show ?case
    using Suc.IH[of "snd (draw_customer R clk w)"] draw_customer_ok[OF assms, of w]
    by (simp add: split_beta Let_def)
qed

lemma length_draws_loop: "length (fst (draws_loop R clk k w)) = k"
  by (induction k arbitrary: w) (simp_all add: split_beta Let_def)

lemma generate_loop_draws:
  "generate_loop R clk k i w =
     (map2 customer_record [i..<i + k] (fst (draws_loop R clk k w)), snd (draws_loop R clk k w))"
proof (induction k arbitrary: i w)
  case 0
  show ?case by simp
next
  case (Suc k)
  have "[i..<i + Suc k] = i # [Suc i..<Suc i + k]"
    by (simp add: upt_conv_Cons)
  then show ?case
    by (simp add: Suc.IH split_beta Let_def del: upt_Suc)
qed

lemma generate_records_nth:
  assumes "i < n"
  shows "generate_records R clk seed n w ! i = customer_record i (generate_draws R clk seed n w ! i)"
  using assms
  by (simp add: generate_records_def generate_draws_def generate_loop_draws length_draws_loop)

lemma length_generate_records: "length (generate_records R clk seed n w) = n"
  by (simp add: generate_records_def generate_loop_draws length_draws_loop)

lemma generate_draws_ok:
  assumes "rng_ok R" "clock_ok clk" "i < n"
  shows "draws_ok (generate_draws R clk seed n w ! i)"
  using draws_loop_ok[OF assms(1,2), of n "seeded R seed w"] assms(3)
  by (simp add: generate_draws_def length_draws_loop)

lemma tenure_ge_offset:
  assumes "draws_ok d"
  shows "d_offset d \<le> tenure_of d"
proof -
  have "d_offset d * day_us \<le> d_now_tenure d - (d_now_acq d - d_offset d * day_us)"
    using assms by (simp add: draws_ok_def)
  then have "d_offset d * day_us div day_us \<le> (d_now_tenure d - (d_now_acq d - d_offset d * day_us)) div day_us"
    by (rule zdiv_mono1) (simp add: day_us_def)
  then show ?thesis
    by (simp add: tenure_of_def td_days_def timedelta_days_def day_us_def)
qed

lemma generate_sample_customer_data_returns:
  "generate_sample_customer_data R clk w = Inr (pd_DataFrame (generate_records R clk 42 10000 w))"
  "has_columns (pd_DataFrame (generate_records R clk 42 10000 w))"
  "length (rows (pd_DataFrame (generate_records R clk 42 10000 w))) = 10000"
proof -
  have "length (generate_records R clk 42 10000 w) = 10000"
    by (rule length_generate_records)
  then have ne: "generate_records R clk 42 10000 w \<noteq> []"
    by auto
  show "has_columns (pd_DataFrame (generate_records R clk 42 10000 w))"
    using ne by (simp add: pd_DataFrame_def)
  then show "generate_sample_customer_data R clk w = Inr (pd_DataFrame (generate_records R clk 42 10000 w))"
    by (simp add: generate_sample_customer_data_def generate_sample_customer_data_n_def column_def)
  show "length (rows (pd_DataFrame (generate_records R clk 42 10000 w))) = 10000"
    by (simp add: pd_DataFrame_def length_generate_records)
qed

subsection \<open>The sample inputs\<close>

lemma replay_rng_ok: "rng_ok (replay_rng tape)"
proof -
  have randint: "lo \<le> lo + k mod (hi - lo) \<and> lo + k mod (hi - lo) < hi" if "lo < hi" for lo hi k :: int
  proof -
    have "0 < hi - lo" using that by simp
    then have "0 \<le> k mod (hi - lo)" and "k mod (hi - lo) < hi - lo"
      by (rule pos_mod_sign, rule pos_mod_bound)
    then show ?thesis by linarith
  qed
  have binom: "0 \<le> k mod (n + 1) \<and> k mod (n + 1) \<le> n" if "0 \<le> n" for n k :: int
  proof -
    have "0 < n + 1" using that by simp
    then have "0 \<le> k mod (n + 1)" and "k mod (n + 1) < n + 1"
      by (rule pos_mod_sign, rule pos_mod_bound)
    then show ?thesis by linarith
  qed
  have unit: "0 \<le> x - of_int \<lfloor>x\<rfloor> \<and> x - of_int \<lfloor>x\<rfloor> < 1" for x :: real
    by linarith
  show ?thesis
    unfolding rng_ok_def replay_rng_def using randint binom unit by simp
qed

lemma fixed_clock_ok: "clock_ok (fixed_clock t0)"
  by (simp add: clock_ok_def fixed_clock_def)

lemma fixed_clock_steady: "clock_steady (fixed_clock t0)"
  by (simp add: clock_steady_def fixed_clock_def day_us_def)

lemmas run_defs =
  generate_records_def generate_draws_def seeded_def draw_customer_def datetime_now_def draw_def
  replay_rng_def tape_head_def fixed_clock_def customer_record_def tenure_of_def td_days_def
  timedelta_days_def day_us_def frequency_of_def score_of_def churn_score_def
  recency_effect_def tenure_effect_def frequency_effect_def support_burden_def
  random_noise_def clv_of_def predicted_lifespan_def risk_segment_of_def
  avg_order_value_of_def np_true_divide_def py_round_def round_half_even_def
  Let_def split_beta

lemma sample_run_fields:
  "map (\<lambda>r. (frequency r, tenure_days r, email_opens r))
     (generate_records (replay_rng sample_tape) (fixed_clock 0) 42 (Suc (Suc 0)) ([], 0))
   = [(3, 100, 6), (5, 430, 2)]"
  by (simp add: run_defs sample_tape_def)

lemma sample_run_score:
  "score_of ((generate_draws (replay_rng sample_tape) (fixed_clock 0) 42 (Suc (Suc 0)) ([], 0)) ! 1) = 1 / 3"
  by (simp add: run_defs sample_tape_def)

lemma sample_run_spend:
  "d_spend ((generate_draws (replay_rng sample_tape) (fixed_clock 0) 42 (Suc (Suc 0)) ([], 0)) ! 0) = 250"
  by (simp add: run_defs sample_tape_def)

subsection \<open>Ranges of the generated fields\<close>

text \<open>
  Claim C7. Every record the generator produces has \<open>frequency \<ge> 1\<close>, \<open>tenure_days \<ge> 0\<close> and
  \<open>0 \<le> email_opens \<le> 20\<close>, for every seed, count and prior state, given samplers that keep
  to their ranges and a clock that does not run backwards.
\<close>

theorem generated_field_ranges:
  assumes "rng_ok R" and "clock_ok clk"
  shows "\<forall>r \<in> set (generate_records R clk seed n w).
           1 \<le> frequency r \<and> 0 \<le> tenure_days r \<and> 0 \<le> email_opens r \<and> email_opens r \<le> 20"
proof
  fix r
  assume "r \<in> set (generate_records R clk seed n w)"
  then obtain i where i: "i < n" and r: "r = generate_records R clk seed n w ! i"
    by (auto simp: in_set_conv_nth length_generate_records)
  define d where "d = generate_draws R clk seed n w ! i"
  have ok: "draws_ok d"
    unfolding d_def using assms i by (rule generate_draws_ok)
  have rec: "r = customer_record i d"
    unfolding d_def r using i by (rule generate_records_nth)
  have "30 \<le> tenure_of d"
    using tenure_ge_offset[OF ok] ok by (simp add: draws_ok_def)
  then show "1 \<le> frequency r \<and> 0 \<le> tenure_days r \<and> 0 \<le> email_opens r \<and> email_opens r \<le> 20"
    using ok by (simp add: rec customer_record_def frequency_of_def draws_ok_def)
qed

theorem generated_field_ranges_witness:
  "rng_ok (replay_rng sample_tape) \<and> clock_ok (fixed_clock 0)
   \<and> map (\<lambda>r. (frequency r, tenure_days r, email_opens r)) (generate_records (replay_rng sample_tape) (fixed_clock 0) 42 (Suc (Suc 0)) ([], 0)) = [(3, 100, 6), (5, 430, 2)]
   \<and> 1 \<le> frequency ((generate_records (replay_rng sample_tape) (fixed_clock 0) 42 (Suc (Suc 0)) ([], 0)) ! 1) \<and> 0 \<le> tenure_days ((generate_records (replay_rng sample_tape) (fixed_clock 0) 42 (Suc (Suc 0)) ([], 0)) ! 1)
   \<and> 0 \<le> email_opens ((generate_records (replay_rng sample_tape) (fixed_clock 0) 42 (Suc (Suc 0)) ([], 0)) ! 1) \<and> email_opens ((generate_records (replay_rng sample_tape) (fixed_clock 0) 42 (Suc (Suc 0)) ([], 0)) ! 1) \<le> 20"
proof -
  have "(generate_records (replay_rng sample_tape) (fixed_clock 0) 42 (Suc (Suc 0)) ([], 0)) ! 1 \<in> set (generate_records (replay_rng sample_tape) (fixed_clock 0) 42 (Suc (Suc 0)) ([], 0))"
    by (rule nth_mem) (simp add: length_generate_records)
  then show ?thesis
    using generated_field_ranges[OF replay_rng_ok fixed_clock_ok, of sample_tape 0 42 "Suc (Suc 0)" "([], 0)"]
      replay_rng_ok[of sample_tape] fixed_clock_ok[of 0] sample_run_fields
    by blast
qed

subsection \<open>The churn score stays in the unit interval\<close>

lemma recency_effect_bounds: "0 \<le> rc \<Longrightarrow> 0 \<le> recency_effect rc \<and> recency_effect rc \<le> 0.3"
  by (simp add: recency_effect_def min_def)

lemma tenure_effect_bounds: "30 \<le> t \<Longrightarrow> 0 \<le> tenure_effect t \<and> tenure_effect t \<le> 0.1"
  by (simp add: tenure_effect_def max_def)

lemma frequency_effect_bounds: "1 \<le> f \<Longrightarrow> 0 \<le> frequency_effect f \<and> frequency_effect f \<le> 0.16"
  by (simp add: frequency_effect_def max_def)

lemma support_burden_bounds: "0 \<le> st \<Longrightarrow> 0 \<le> support_burden st \<and> support_burden st \<le> 0.1"
  by (simp add: support_burden_def min_def)

lemma random_noise_bounds: "0 \<le> u \<Longrightarrow> u < 1 \<Longrightarrow> 0 \<le> random_noise u \<and> random_noise u < 0.2"
  by (simp add: random_noise_def)

lemma score_of_bounds:
  assumes "draws_ok d"
  shows "0 \<le> score_of d \<and> score_of d < 0.86"
proof -
  have t: "30 \<le> tenure_of d"
    using tenure_ge_offset[OF assms] assms by (simp add: draws_ok_def)
  have f: "1 \<le> frequency_of d"
    using assms by (simp add: draws_ok_def frequency_of_def)
  note b = recency_effect_bounds[of "d_recency d"] tenure_effect_bounds[OF t]
    frequency_effect_bounds[OF f] support_burden_bounds[of "d_tickets d"]
    random_noise_bounds[of "d_noise d"]
  show ?thesis
    using b assms by (simp add: score_of_def churn_score_def draws_ok_def)
qed

text \<open>
  Claim C10. For every generated record the churn score before rounding lies in \<open>[0, 1)\<close>:
  the five summands are non-negative, the recency, support and noise terms are at most
  0.3, 0.1 and 0.2, the tenure term is at most 0.1 because \<open>tenure_days \<ge> 30\<close>, and the
  frequency term is at most 0.16 because \<open>frequency \<ge> 1\<close>.
\<close>

theorem churn_score_in_unit_interval:
  assumes "rng_ok R" and "clock_ok clk" and "i < n"
  shows "let d = generate_draws R clk seed n w ! i
         in generate_records R clk seed n w ! i = customer_record i d
            \<and> 30 \<le> tenure_of d \<and> 1 \<le> frequency_of d
            \<and> 0 \<le> recency_effect (d_recency d) \<and> recency_effect (d_recency d) \<le> 0.3
            \<and> 0 \<le> tenure_effect (tenure_of d) \<and> tenure_effect (tenure_of d) \<le> 0.1
            \<and> 0 \<le> frequency_effect (frequency_of d) \<and> frequency_effect (frequency_of d) \<le> 0.16
            \<and> 0 \<le> support_burden (d_tickets d) \<and> support_burden (d_tickets d) \<le> 0.1
            \<and> 0 \<le> random_noise (d_noise d) \<and> random_noise (d_noise d) \<le> 0.2
            \<and> 0 \<le> score_of d \<and> score_of d < 1"
proof -
  define d where "d = generate_draws R clk seed n w ! i"
  have ok: "draws_ok d"
    unfolding d_def using assms by (rule generate_draws_ok)
  have rec: "generate_records R clk seed n w ! i = customer_record i d"
    unfolding d_def using assms(3) by (rule generate_records_nth)
  have t: "30 \<le> tenure_of d"
    using tenure_ge_offset[OF ok] ok by (simp add: draws_ok_def)
  have f: "1 \<le> frequency_of d"
    using ok by (simp add: draws_ok_def frequency_of_def)
  have r: "0 \<le> d_recency d" and s: "0 \<le> d_tickets d" and u: "0 \<le> d_noise d" "d_noise d < 1"
    using ok by (simp_all add: draws_ok_def)
  have "score_of d < 1"
    using score_of_bounds[OF ok] by simp
  then show ?thesis
    unfolding Let_def d_def[symmetric]
    using rec t f recency_effect_bounds[OF r] tenure_effect_bounds[OF t]
      frequency_effect_bounds[OF f] support_burden_bounds[OF s] random_noise_bounds[OF u]
      score_of_bounds[OF ok]
    by simp
qed

theorem churn_score_in_unit_interval_witness:
  "rng_ok (replay_rng sample_tape) \<and> clock_ok (fixed_clock 0) \<and> (1::nat) < Suc (Suc 0)
   \<and> score_of ((generate_draws (replay_rng sample_tape) (fixed_clock 0) 42 (Suc (Suc 0)) ([], 0)) ! 1) = 1 / 3
   \<and> 0 \<le> score_of ((generate_draws (replay_rng sample_tape) (fixed_clock 0) 42 (Suc (Suc 0)) ([], 0)) ! 1) \<and> score_of ((generate_draws (replay_rng sample_tape) (fixed_clock 0) 42 (Suc (Suc 0)) ([], 0)) ! 1) < 1"
  using churn_score_in_unit_interval[OF replay_rng_ok fixed_clock_ok, of 1 "Suc (Suc 0)" sample_tape 0 42 "([], 0)"]
    replay_rng_ok[of sample_tape] fixed_clock_ok[of 0] sample_run_score
  by (simp add: Let_def)

subsection \<open>The predicted value is not negative\<close>

lemma clv_of_nonneg:
  assumes "0 \<le> ms" and "cs \<le> 2"
  shows "0 \<le> clv_of ms cs"
proof -
  have "0 \<le> predicted_lifespan cs / 30"
    by (simp add: predicted_lifespan_def max_def)
  moreover have "0 \<le> 1 - cs * 0.5"
    using assms(2) by simp
  ultimately show ?thesis
    unfolding clv_of_def using assms(1) by (intro mult_nonneg_nonneg)
qed

text \<open>
  Claim C8. For every generated record, if the monthly spend is not negative then
  \<open>predicted_clv \<ge> 0\<close>, where \<open>predicted_clv\<close> is
  \<open>monthly_spend * (predicted_lifespan / 30) * (1 - churn * 0.5)\<close> rounded to two decimals and
  \<open>predicted_lifespan = max 30 (365 * (1 - churn))\<close>. The formula reads the spend and the
  score before they are rounded; the stored spend is the drawn one rounded to two decimals.
\<close>

theorem predicted_clv_nonneg:
  assumes "rng_ok R" and "clock_ok clk" and "i < n"
  shows "let d = generate_draws R clk seed n w ! i;
             r = generate_records R clk seed n w ! i;
             cs = score_of d
         in predicted_clv r = py_round (d_spend d * (predicted_lifespan cs / 30) * (1 - cs * 0.5)) 2
            \<and> predicted_lifespan cs = max 30 (365 * (1 - cs))
            \<and> monthly_spend r = py_round (d_spend d) 2
            \<and> (0 \<le> d_spend d \<longrightarrow> 0 \<le> predicted_clv r)
            \<and> (0 < monthly_spend r \<longrightarrow> 0 \<le> predicted_clv r)"
proof -
  define d where "d = generate_draws R clk seed n w ! i"
  have ok: "draws_ok d"
    unfolding d_def using assms by (rule generate_draws_ok)
  have rec: "generate_records R clk seed n w ! i = customer_record i d"
    unfolding d_def using assms(3) by (rule generate_records_nth)
  have cs: "score_of d \<le> 2"
    using score_of_bounds[OF ok] by simp
  have nn: "0 \<le> d_spend d \<Longrightarrow> 0 \<le> py_round (clv_of (d_spend d) (score_of d)) 2"
    by (rule py_round_nonneg) (rule clv_of_nonneg[OF _ cs])
  have pos: "0 < py_round (d_spend d) 2 \<Longrightarrow> 0 \<le> d_spend d"
    using py_round_pos_imp[of "d_spend d" 2] by simp
  show ?thesis
    unfolding Let_def d_def[symmetric] rec
    using nn pos by (simp add: customer_record_def clv_of_def predicted_lifespan_def)
qed

theorem predicted_clv_nonneg_witness:
  "rng_ok (replay_rng sample_tape) \<and> clock_ok (fixed_clock 0) \<and> (0::nat) < Suc (Suc 0)
   \<and> d_spend ((generate_draws (replay_rng sample_tape) (fixed_clock 0) 42 (Suc (Suc 0)) ([], 0)) ! 0) = 250
   \<and> 0 \<le> d_spend ((generate_draws (replay_rng sample_tape) (fixed_clock 0) 42 (Suc (Suc 0)) ([], 0)) ! 0)
   \<and> 0 \<le> predicted_clv ((generate_records (replay_rng sample_tape) (fixed_clock 0) 42 (Suc (Suc 0)) ([], 0)) ! 0)"
proof -
  have spend: "0 \<le> d_spend ((generate_draws (replay_rng sample_tape) (fixed_clock 0) 42 (Suc (Suc 0)) ([], 0)) ! 0)"
    by (simp add: sample_run_spend)
  have "0 \<le> d_spend ((generate_draws (replay_rng sample_tape) (fixed_clock 0) 42 (Suc (Suc 0)) ([], 0)) ! 0) \<longrightarrow> 0 \<le> predicted_clv ((generate_records (replay_rng sample_tape) (fixed_clock 0) 42 (Suc (Suc 0)) ([], 0)) ! 0)"
    using predicted_clv_nonneg[OF replay_rng_ok fixed_clock_ok, of 0 "Suc (Suc 0)" sample_tape 0 42 "([], 0)"]
    unfolding Let_def by blast
  then show ?thesis
    using spend sample_run_spend replay_rng_ok[of sample_tape] fixed_clock_ok[of 0] by blast
qed

subsection \<open>The guarded division\<close>

text \<open>
  Claim C9. \<open>avg_order_value\<close> is \<open>monthly_spend / frequency\<close> when \<open>frequency > 0\<close> and 0 when
  \<open>frequency = 0\<close>; the division is never asked to divide by zero (the result is always a
  finite number, where an unguarded division by zero would not be); and on generated
  records \<open>frequency \<ge> 1\<close>, so the zero branch is not taken there. The stored field is the
  quotient rounded to two decimals.
\<close>

theorem avg_order_value_guarded:
  assumes "rng_ok R" and "clock_ok clk" and "i < n"
  shows "(\<forall>ms fr. (0 < fr \<longrightarrow> avg_order_value_of ms fr = Some (ms / of_int fr))
                \<and> (fr = 0 \<longrightarrow> avg_order_value_of ms fr = Some 0)
                \<and> avg_order_value_of ms fr \<noteq> None)
         \<and> np_true_divide ms0 0 = None
         \<and> (let d = generate_draws R clk seed n w ! i;
                 r = generate_records R clk seed n w ! i
             in 1 \<le> frequency r
                \<and> avg_order_value r = Some (py_round (d_spend d / of_int (frequency r)) 2))"
proof -
  define d where "d = generate_draws R clk seed n w ! i"
  have ok: "draws_ok d"
    unfolding d_def using assms by (rule generate_draws_ok)
  have rec: "generate_records R clk seed n w ! i = customer_record i d"
    unfolding d_def using assms(3) by (rule generate_records_nth)
  have f: "1 \<le> frequency_of d"
    using ok by (simp add: draws_ok_def frequency_of_def)
  have gen: "1 \<le> frequency (customer_record i d)
             \<and> avg_order_value (customer_record i d)
                 = Some (py_round (d_spend d / of_int (frequency (customer_record i d))) 2)"
    using f by (simp add: customer_record_def avg_order_value_of_def np_true_divide_def)
  have guard: "\<forall>ms fr. (0 < fr \<longrightarrow> avg_order_value_of ms fr = Some (ms / of_int fr))
                \<and> (fr = 0 \<longrightarrow> avg_order_value_of ms fr = Some 0)
                \<and> avg_order_value_of ms fr \<noteq> None"
    by (simp add: avg_order_value_of_def np_true_divide_def)
  have z: "np_true_divide ms0 0 = None"
    by (simp add: np_true_divide_def)
  show ?thesis
    unfolding Let_def d_def[symmetric] rec using guard z gen by blast
qed

theorem avg_order_value_guarded_witness:
  "rng_ok (replay_rng sample_tape) \<and> clock_ok (fixed_clock 0) \<and> (0::nat) < Suc (Suc 0)
   \<and> avg_order_value_of 250 3 = Some (250 / 3)
   \<and> avg_order_value_of 250 0 = Some 0
   \<and> np_true_divide 250 0 = None
   \<and> 1 \<le> frequency ((generate_records (replay_rng sample_tape) (fixed_clock 0) 42 (Suc (Suc 0)) ([], 0)) ! 0)"
  using avg_order_value_guarded[OF replay_rng_ok fixed_clock_ok, of 0 "Suc (Suc 0)" 250 sample_tape 0 42 "([], 0)"]
    replay_rng_ok[of sample_tape] fixed_clock_ok[of 0]
  by (simp add: Let_def)

subsection \<open>The risk segment and the stored churn probability\<close>

lemma boundary_record:
  "risk_segment (generate_records (replay_rng boundary_tape) (fixed_clock 0) 42 (Suc 0) ([], 0) ! 0) = High"
  "churn_probability (generate_records (replay_rng boundary_tape) (fixed_clock 0) 42 (Suc 0) ([], 0) ! 0) = 0.7"
  by (simp_all add: generate_records_def seeded_def draw_customer_def datetime_now_def draw_def
      replay_rng_def tape_head_def fixed_clock_def customer_record_def tenure_of_def td_days_def
      timedelta_days_def day_us_def frequency_of_def score_of_def churn_score_def
      recency_effect_def tenure_effect_def frequency_effect_def support_burden_def
      random_noise_def risk_segment_of_def py_round_def round_half_even_def boundary_tape_def
      Let_def split_beta)

text \<open>
  Claim C1, as stated: in every generated record the stored \<open>risk_segment\<close> is \<open>High\<close>
  exactly when the stored \<open>churn_probability\<close> exceeds 0.7 (and likewise for the other two
  segments). The source thresholds the score before rounding it and stores the score
  rounded to three decimals, so a score of 0.7004 is stored as 0.7 in a \<open>High\<close> record.
\<close>

theorem risk_segment_stored_counterexample:
  "rng_ok (replay_rng boundary_tape) \<and> clock_ok (fixed_clock 0)
   \<and> risk_segment ((generate_records (replay_rng boundary_tape) (fixed_clock 0) 42 (Suc 0) ([], 0)) ! 0) = High
   \<and> \<not> 0.7 < churn_probability ((generate_records (replay_rng boundary_tape) (fixed_clock 0) 42 (Suc 0) ([], 0)) ! 0)"
  using replay_rng_ok[of boundary_tape] fixed_clock_ok[of 0] boundary_record
  by simp

text \<open>
  Claim C1, amended: the segment is a function of the score before rounding (\<open>High\<close> iff
  it exceeds 0.7, \<open>Medium\<close> iff it lies in \<open>(0.4, 0.7]\<close>, \<open>Low\<close> iff it is at most 0.4). Against
  the stored probability \<open>cp\<close> this gives: \<open>cp > 0.7\<close> implies \<open>High\<close> implies \<open>cp \<ge> 0.7\<close>;
  \<open>0.4 < cp < 0.7\<close> implies \<open>Medium\<close> implies \<open>0.4 \<le> cp \<le> 0.7\<close>; \<open>cp < 0.4\<close> implies \<open>Low\<close>
  implies \<open>cp \<le> 0.4\<close>.
\<close>

theorem risk_segment_follows_unrounded_score:
  assumes "i < n"
  shows "let d = generate_draws R clk seed n w ! i;
             r = generate_records R clk seed n w ! i;
             cs = score_of d;
             cp = churn_probability r
         in cp = py_round cs 3
            \<and> (risk_segment r = High \<longleftrightarrow> 0.7 < cs)
            \<and> (risk_segment r = Medium \<longleftrightarrow> 0.4 < cs \<and> cs \<le> 0.7)
            \<and> (risk_segment r = Low \<longleftrightarrow> cs \<le> 0.4)
            \<and> (0.7 < cp \<longrightarrow> risk_segment r = High)
            \<and> (risk_segment r = High \<longrightarrow> 0.7 \<le> cp)
            \<and> (0.4 < cp \<and> cp < 0.7 \<longrightarrow> risk_segment r = Medium)
            \<and> (risk_segment r = Medium \<longrightarrow> 0.4 \<le> cp \<and> cp \<le> 0.7)
            \<and> (cp < 0.4 \<longrightarrow> risk_segment r = Low)
            \<and> (risk_segment r = Low \<longrightarrow> cp \<le> 0.4)"
proof -
  define d where "d = generate_draws R clk seed n w ! i"
  define cs where "cs = score_of d"
  have rec: "generate_records R clk seed n w ! i = customer_record i d"
    unfolding d_def using assms by (rule generate_records_nth)
  have cp: "churn_probability (customer_record i d) = py_round cs 3"
    and seg: "risk_segment (customer_record i d) = risk_segment_of cs"
    by (simp_all add: customer_record_def cs_def)
  have exact: "(risk_segment_of cs = High \<longleftrightarrow> 0.7 < cs)
      \<and> (risk_segment_of cs = Medium \<longleftrightarrow> 0.4 < cs \<and> cs \<le> 0.7)
      \<and> (risk_segment_of cs = Low \<longleftrightarrow> cs \<le> 0.4)"
    by (simp add: risk_segment_of_def)
  show ?thesis
    unfolding Let_def d_def[symmetric] rec cs_def[symmetric] cp seg
    using exact round3_thresholds[of cs] by auto
qed

theorem risk_segment_follows_unrounded_score_witness:
  "(0::nat) < Suc 0
   \<and> risk_segment ((generate_records (replay_rng boundary_tape) (fixed_clock 0) 42 (Suc 0) ([], 0)) ! 0) = High
   \<and> 0.7 < score_of (generate_draws (replay_rng boundary_tape) (fixed_clock 0) 42 (Suc 0) ([], 0) ! 0)
   \<and> 0.7 \<le> churn_probability ((generate_records (replay_rng boundary_tape) (fixed_clock 0) 42 (Suc 0) ([], 0)) ! 0)"
  using risk_segment_follows_unrounded_score[of 0 "Suc 0" "replay_rng boundary_tape" "fixed_clock 0" 42 "([], 0)"]
    boundary_record
  by (simp add: Let_def)

subsection \<open>Reproducibility of a run\<close>

lemma draw_customer_traced:
  "draw_customer (traced R) clk ((s, lg), t) =
     (fst (draw_customer R clk (s, t)),
      ((fst (snd (draw_customer R clk (s, t))), lg @ customer_calls),
       snd (snd (draw_customer R clk (s, t)))))"
  by (simp add: draw_customer_def traced_def logged_def draw_def datetime_now_def
      customer_calls_def split_beta Let_def)

lemma generate_loop_traced:
  "generate_loop (traced R) clk k i ((s, lg), t) =
     (fst (generate_loop R clk k i (s, t)),
      ((fst (snd (generate_loop R clk k i (s, t))), lg @ concat (replicate k customer_calls)),
       snd (snd (generate_loop R clk k i (s, t)))))"
proof (induction k arbitrary: i s lg t)
  case 0
  show ?case by simp
next
  case (Suc k)
  obtain d s' t' where step: "draw_customer R clk (s, t) = (d, (s', t'))"
    by (metis prod.collapse)
  show ?case
    by (simp add: draw_customer_traced step Suc.IH split_beta)
qed

lemma draw_customer_state:
  "fst (snd (draw_customer R clk (s, t))) = fst (snd (draw_customer R clk' (s, t')))"
  "snd (snd (draw_customer R clk (s, t))) = Suc (Suc t)"
  "fst (draw_customer R clk (s, t)) =
     (fst (draw_customer R clk' (s, t')))\<lparr>d_now_acq := clk t, d_now_tenure := clk (Suc t)\<rparr>"
  by (simp_all add: draw_customer_def draw_def datetime_now_def split_beta Let_def)

lemma tenure_steady:
  assumes "t1 \<le> t2" and "t2 - t1 < day_us"
  shows "td_days (t2 - (t1 - timedelta_days off)) = off"
proof -
  have pos: "0 < day_us" by (simp add: day_us_def)
  have zero: "(t2 - t1) div day_us = 0"
    using assms by (simp add: div_pos_pos_trivial)
  have "(t2 - (t1 - off * day_us)) div day_us = ((t2 - t1) + off * day_us) div day_us"
    by (simp add: algebra_simps)
  also have "\<dots> = (t2 - t1) div day_us + off"
    using pos by simp
  finally show ?thesis
    unfolding td_days_def timedelta_days_def using zero by simp
qed

lemma draw_customer_tenure:
  assumes "clock_steady clk"
  shows "tenure_of (fst (draw_customer R clk (s, t))) = d_offset (fst (draw_customer R clk (s, t)))"
proof -
  have "clk t \<le> clk (Suc t)" and "clk (Suc t) - clk t < day_us"
    using assms by (simp_all add: clock_steady_def)
  then have "td_days (clk (Suc t) - (clk t - timedelta_days off)) = off" for off
    by (rule tenure_steady)
  then show ?thesis
    by (simp add: tenure_of_def draw_customer_def draw_def datetime_now_def split_beta Let_def)
qed

lemma without_date_record:
  assumes "d' = d\<lparr>d_now_acq := a, d_now_tenure := b\<rparr>"
    and "tenure_of d = d_offset d" and "tenure_of d' = d_offset d'"
  shows "without_date (customer_record i d') = without_date (customer_record i d)"
  using assms(2,3) unfolding assms(1)
  by (simp add: customer_record_def without_date_def score_of_def frequency_of_def)

lemma generate_loop_clock:
  assumes "clock_steady clk" and "clock_steady clk'"
  shows "map without_date (fst (generate_loop R clk k i (s, t)))
         = map without_date (fst (generate_loop R clk' k i (s, t')))"
proof (induction k arbitrary: i s t t')
  case 0
  show ?case by simp
next
  case (Suc k)
  obtain d s1 where step: "draw_customer R clk (s, t) = (d, (s1, Suc (Suc t)))"
    by (metis prod.collapse draw_customer_state(2))
  obtain d' s1' where step': "draw_customer R clk' (s, t') = (d', (s1', Suc (Suc t')))"
    by (metis prod.collapse draw_customer_state(2))
  have same: "s1' = s1"
    using draw_customer_state(1)[of R clk s t clk' t'] by (simp add: step step')
  have d: "d = d'\<lparr>d_now_acq := clk t, d_now_tenure := clk (Suc t)\<rparr>"
    using draw_customer_state(3)[of R clk s t clk' t'] by (simp add: step step')
  have "tenure_of d = d_offset d" and "tenure_of d' = d_offset d'"
    using draw_customer_tenure[OF assms(1), of R s t] draw_customer_tenure[OF assms(2), of R s t']
    by (simp_all add: step step')
  then have "without_date (customer_record i d) = without_date (customer_record i d')"
    using d by (intro without_date_record)
  then show ?case
    using Suc.IH[of "Suc i" s1 "Suc (Suc t)" "Suc (Suc t')"]
    by (simp add: step step' same split_beta)
qed

lemma sample_run_dates:
  "acquisition_date (generate_records (replay_rng sample_tape) (fixed_clock 0) 42 (Suc 0) ([], 0) ! 0) = - 8640000000000"
  "acquisition_date (generate_records (replay_rng sample_tape) (fixed_clock 1000000) 42 (Suc 0) ([], 0) ! 0) = - 8639999000000"
  by (simp_all add: generate_records_def seeded_def draw_customer_def datetime_now_def draw_def
      replay_rng_def tape_head_def fixed_clock_def customer_record_def timedelta_days_def
      day_us_def sample_tape_def Let_def split_beta)

text \<open>
  Claim C2, as stated: two runs with the same seed and the same count produce identical
  record collections. Each record stores \<^verbatim>\<open>acquisition_date = datetime.now() - offset\<close>,
  so the same seed on a clock started a second later gives a different collection.
\<close>

theorem generation_not_bit_identical_counterexample:
  "clock_steady (fixed_clock 0) \<and> clock_steady (fixed_clock 1000000)
   \<and> generate_records (replay_rng sample_tape) (fixed_clock 0) 42 (Suc 0) ([], 0)
       \<noteq> generate_records (replay_rng sample_tape) (fixed_clock 1000000) 42 (Suc 0) ([], 0)"
proof -
  have "generate_records (replay_rng sample_tape) (fixed_clock 0) 42 (Suc 0) ([], 0)
       \<noteq> generate_records (replay_rng sample_tape) (fixed_clock 1000000) 42 (Suc 0) ([], 0)"
  proof
    assume "generate_records (replay_rng sample_tape) (fixed_clock 0) 42 (Suc 0) ([], 0)
       = generate_records (replay_rng sample_tape) (fixed_clock 1000000) 42 (Suc 0) ([], 0)"
    then have "acquisition_date (generate_records (replay_rng sample_tape) (fixed_clock 0) 42 (Suc 0) ([], 0) ! 0)
       = acquisition_date (generate_records (replay_rng sample_tape) (fixed_clock 1000000) 42 (Suc 0) ([], 0) ! 0)"
      by simp
    then show False
      by (simp add: sample_run_dates)
  qed
  then show ?thesis
    using fixed_clock_steady by blast
qed

text \<open>
  Claim C2, amended: for every seed and count, two runs with the same seed and count, on
  clocks that neither step back nor advance a whole day between two consecutive reads,
  produce collections that agree in every field other than \<open>acquisition_date\<close>; the state
  of the random generator before the run does not matter; and each customer's values come
  from the seeded generator in the fixed order acquisition offset, monthly spend,
  frequency, recency, email opens, support tickets, app sessions, then one uniform draw.
\<close>

theorem generation_deterministic_up_to_clock:
  assumes "clock_steady clk1" and "clock_steady clk2"
  shows "map without_date (generate_records R clk1 seed n w1)
           = map without_date (generate_records R clk2 seed n w2)
         \<and> generate_records R clk1 seed n (s1, t) = generate_records R clk1 seed n (s2, t)
         \<and> call_log R clk1 seed n w1 = concat (replicate n customer_calls)
         \<and> generate_records (traced R) clk1 seed n ((fst w1, []), snd w1)
             = generate_records R clk1 seed n w1"
proof -
  have a: "map without_date (generate_records R clk1 seed n w1)
           = map without_date (generate_records R clk2 seed n w2)"
    unfolding generate_records_def seeded_def by (rule generate_loop_clock[OF assms])
  have b: "generate_records R clk1 seed n (s1, t) = generate_records R clk1 seed n (s2, t)"
    by (simp add: generate_records_def seeded_def)
  have c: "call_log R clk1 seed n w1 = concat (replicate n customer_calls)"
    by (simp add: call_log_def seeded_def traced_def generate_loop_traced[unfolded traced_def])
  have d: "generate_records (traced R) clk1 seed n ((fst w1, []), snd w1)
             = generate_records R clk1 seed n w1"
    by (simp add: generate_records_def seeded_def traced_def generate_loop_traced[unfolded traced_def])
  show ?thesis using a b c d by blast
qed

theorem generation_deterministic_up_to_clock_witness:
  "clock_steady (fixed_clock 0) \<and> clock_steady (fixed_clock 1000000)
   \<and> map without_date (generate_records (replay_rng sample_tape) (fixed_clock 0) 42 (Suc 0) ([], 0))
       = map without_date (generate_records (replay_rng sample_tape) (fixed_clock 1000000) 42 (Suc 0) ([], 0))
   \<and> call_log (replay_rng sample_tape) (fixed_clock 0) 42 (Suc 0) ([], 0) = customer_calls"
  using generation_deterministic_up_to_clock[OF fixed_clock_steady[of 0] fixed_clock_steady[of 1000000],
      where R = "replay_rng sample_tape" and seed = 42 and n = "Suc 0" and ?w1.0 = "([], 0)"
        and ?w2.0 = "([], 0)"]
    fixed_clock_steady[of 0] fixed_clock_steady[of 1000000]
  by simp

subsection \<open>The retention strategy selector\<close>

lemma boolean_index_map: "boolean_index (map p xs) xs = filter p xs"
  by (induction xs) (simp_all add: boolean_index_def)

lemma mask_and_map: "mask_and (map p xs) (map q xs) = map (\<lambda>x. p x \<and> q x) xs"
  by (induction xs) (simp_all add: mask_and_def)

lemma gt_series_map:
  "gt_series (map f xs) t = map (\<lambda>r. case t of None \<Rightarrow> False | Some b \<Rightarrow> f r > b) xs"
  by (simp add: gt_series_def)

lemma choose_strategy_first_match:
  "choose_strategy c = first_match strategy_rules default_strategy c"
  by (simp add: choose_strategy_def strategy_rules_def default_strategy_def)

lemma first_match_in_rules: "first_match rules dflt c \<in> set (map snd rules @ [dflt])"
  by (induction rules dflt c rule: first_match.induct) auto

lemma boolean_index_column:
  "boolean_index (map p (map f xs)) xs = filter (\<lambda>x. p (f x)) xs"
  by (induction xs) (simp_all add: boolean_index_def)

lemma sample_frame_rows: "has_columns sample_frame" "rows sample_frame = sample_rows"
  by (simp_all add: sample_frame_def pd_DataFrame_def sample_rows_def)

lemma sample_selector:
  "map (\<lambda>s. (s_customer_id s, s_strategy s)) (selector_spec sample_rows) =
     [(''CUST_000001'', ''Re-engagement email series with personalized offers''),
      (''CUST_000003'', ''Proactive customer success outreach''),
      (''CUST_000005'', ''Multi-channel communication (SMS, push notifications)'')]"
  by code_simp

text \<open>
  Claim C3. On a frame of customer records the selector returns one row for each of the
  first at most five \<open>High\<close> records, in order, whose strategy is the text of the first rule
  that matches in the order recency over 60, more than 2 support tickets, fewer than 5 email
  opens, and the default otherwise; the result is always one of the four fixed texts; and a
  customer with recency 70, no support tickets and 10 email opens gets the re-engagement
  text.
\<close>

theorem retention_strategy_first_match:
  assumes "has_columns df"
  shows "generate_retention_strategies df = Inr (selector_spec (rows df))
         \<and> length (selector_spec (rows df))
             = min 5 (length (filter (\<lambda>c. risk_segment c = High) (rows df)))
         \<and> (\<forall>c. first_match strategy_rules default_strategy c \<in> set four_strategies)
         \<and> distinct four_strategies \<and> length four_strategies = 4
         \<and> (\<forall>c. recency c = 70 \<and> support_tickets c = 0 \<and> email_opens c = 10 \<longrightarrow>
                choose_strategy c = ''Re-engagement email series with personalized offers'')"
proof -
  have a: "generate_retention_strategies df = Inr (selector_spec (rows df))"
    using assms
    by (simp add: generate_retention_strategies_def column_def selector_spec_def strategy_for_def
        choose_strategy_first_match boolean_index_map comp_def)
  have b: "length (selector_spec (rows df))
             = min 5 (length (filter (\<lambda>c. risk_segment c = High) (rows df)))"
    by (simp add: selector_spec_def min.commute)
  have c: "\<forall>c. first_match strategy_rules default_strategy c \<in> set four_strategies"
    unfolding four_strategies_def by (intro allI first_match_in_rules)
  have d: "distinct four_strategies \<and> length four_strategies = 4"
    by (simp add: four_strategies_def strategy_rules_def default_strategy_def)
  have e: "\<forall>c. recency c = 70 \<and> support_tickets c = 0 \<and> email_opens c = 10 \<longrightarrow>
                choose_strategy c = ''Re-engagement email series with personalized offers''"
    by (simp add: choose_strategy_def)
  show ?thesis using a b c d e by blast
qed

theorem retention_strategy_first_match_witness:
  "has_columns sample_frame
   \<and> generate_retention_strategies sample_frame = Inr (selector_spec sample_rows)
   \<and> map (\<lambda>s. (s_customer_id s, s_strategy s)) (selector_spec sample_rows) =
       [(''CUST_000001'', ''Re-engagement email series with personalized offers''),
        (''CUST_000003'', ''Proactive customer success outreach''),
        (''CUST_000005'', ''Multi-channel communication (SMS, push notifications)'')]"
  using retention_strategy_first_match[OF sample_frame_rows(1)] sample_frame_rows sample_selector
  by simp

subsection \<open>The at-risk valuable subset\<close>

lemma at_risk_rows_spec: "at_risk_rows xs = at_risk_valuable_spec xs"
  by (simp add: at_risk_rows_def at_risk_valuable_spec_def above_percentile80_def
      gt_series_map mask_and_map boolean_index_map)

text \<open>
  The 0.8 quantile of a non-empty column lies between two neighbouring order statistics,
  those of rank \<open>\<lfloor>0.8 * (n - 1)\<rfloor>\<close> and the next.
\<close>

lemma series_quantile_between:
  assumes "xs \<noteq> []" and "0 \<le> q" and "q \<le> 1"
  shows "\<exists>p. series_quantile xs q = Some p
           \<and> sort xs ! nat \<lfloor>q * of_nat (length xs - 1)\<rfloor> \<le> p
           \<and> p \<le> sort xs ! min (nat \<lfloor>q * of_nat (length xs - 1)\<rfloor> + 1) (length xs - 1)"
proof -
  define n where "n = length xs"
  define h where "h = q * of_nat (n - 1)"
  define lo where "lo = nat \<lfloor>h\<rfloor>"
  define hi where "hi = min (lo + 1) (n - 1)"
  define s where "s = sort xs"
  have npos: "0 < n" using assms(1) by (simp add: n_def)
  have h0: "0 \<le> h" using assms(2) by (simp add: h_def)
  have h1: "h \<le> of_nat (n - 1)"
    using assms(2,3) by (simp add: h_def mult_left_le_one_le)
  have lo_le: "lo \<le> n - 1"
    using h1 h0 unfolding lo_def by (simp add: le_nat_floor nat_le_iff floor_le_iff) 
  have lo_hi: "lo \<le> hi" and hi_lt: "hi < n"
    using lo_le npos by (simp_all add: hi_def)
  have fr: "0 \<le> h - of_nat lo" "h - of_nat lo \<le> 1"
    using h0 unfolding lo_def by (simp_all, linarith+)
  have srt: "s ! lo \<le> s ! hi"
    unfolding s_def using lo_hi hi_lt
    by (intro sorted_nth_mono) (simp_all add: n_def)
  define p where "p = s ! lo + (s ! hi - s ! lo) * (h - of_nat lo)"
  have q: "series_quantile xs q = Some p"
    using assms(1)
    by (simp add: series_quantile_def Let_def p_def s_def hi_def lo_def h_def n_def)
  have "0 \<le> (s ! hi - s ! lo) * (h - of_nat lo)"
    using srt fr(1) by simp
  then have lower: "s ! lo \<le> p" by (simp add: p_def)
  have "(s ! hi - s ! lo) * (h - of_nat lo) \<le> (s ! hi - s ! lo) * 1"
    using srt fr(2) by (intro mult_left_mono) simp_all
  then have upper: "p \<le> s ! hi" by (simp add: p_def)
  show ?thesis
    using q lower upper unfolding s_def hi_def lo_def h_def n_def by blast
qed

lemma sample_quantile: "series_quantile (map predicted_clv sample_rows) 0.8 = Some 420"
  by code_simp

lemma sample_at_risk:
  "map (\<lambda>r. (customer_id r, predicted_clv r)) (at_risk_valuable_spec sample_rows) = [(''CUST_000005'', 500)]"
  by code_simp

text \<open>
  Claim C4. On a frame of customer records the at-risk valuable subset the analysis computes
  is exactly the records whose \<open>predicted_clv\<close> is strictly above the 0.8 quantile of all
  \<open>predicted_clv\<close> values of the frame and whose \<open>churn_probability\<close> is strictly above 0.6,
  in order; what it reports is the size of that subset and the sum of its \<open>predicted_clv\<close>.
\<close>

theorem at_risk_valuable_is_filter:
  assumes "has_columns df"
  shows "\<exists>rep res. perform_clv_analysis df = Inr (rep, res)
           \<and> at_risk_valuable rep = at_risk_valuable_spec (rows df)
           \<and> at_risk_count rep = length (at_risk_valuable_spec (rows df))
           \<and> at_risk_clv rep = sum_list (map predicted_clv (at_risk_valuable_spec (rows df)))
           \<and> at_risk_value res = sum_list (map predicted_clv (at_risk_valuable_spec (rows df)))"
  using assms by (simp add: perform_clv_analysis_def Let_def at_risk_rows_spec series_sum_def)

theorem at_risk_valuable_is_filter_witness:
  "has_columns sample_frame
   \<and> series_quantile (map predicted_clv sample_rows) 0.8 = Some 420
   \<and> (\<exists>rep res. perform_clv_analysis sample_frame = Inr (rep, res)
         \<and> map (\<lambda>r. (customer_id r, predicted_clv r)) (at_risk_valuable rep) = [(''CUST_000005'', 500)]
         \<and> at_risk_count rep = 1 \<and> at_risk_clv rep = 500 \<and> at_risk_value res = 500)"
proof -
  obtain rep res where an: "perform_clv_analysis sample_frame = Inr (rep, res)"
    and sub: "at_risk_valuable rep = at_risk_valuable_spec sample_rows"
    and cnt: "at_risk_count rep = length (at_risk_valuable_spec sample_rows)"
    and clv: "at_risk_clv rep = sum_list (map predicted_clv (at_risk_valuable_spec sample_rows))"
    and val: "at_risk_value res = sum_list (map predicted_clv (at_risk_valuable_spec sample_rows))"
    using at_risk_valuable_is_filter[OF sample_frame_rows(1)] unfolding sample_frame_rows(2) by blast
  have len: "length (at_risk_valuable_spec sample_rows) = 1"
    using arg_cong[OF sample_at_risk, of length] by simp
  have sum: "sum_list (map predicted_clv (at_risk_valuable_spec sample_rows)) = 500"
    using arg_cong[OF sample_at_risk, of "\<lambda>xs. sum_list (map snd xs)"] by (simp add: comp_def)
  have "map (\<lambda>r. (customer_id r, predicted_clv r)) (at_risk_valuable rep) = [(''CUST_000005'', 500)]"
    unfolding sub by (rule sample_at_risk)
  moreover have "at_risk_count rep = 1"
    unfolding cnt by (rule len)
  moreover have "at_risk_clv rep = 500" and "at_risk_value res = 500"
    unfolding clv val by (rule sum)+
  moreover note an sample_frame_rows(1) sample_quantile
  ultimately show ?thesis
    by (intro conjI exI[of _ rep] exI[of _ res])
qed

subsection \<open>The empty collection\<close>

text \<open>
  Claim C5, as stated: on the empty collection (no customers generated) the analysis does
  not fail. A frame built from an empty list of records has no columns: the analysis raises
  \<^verbatim>\<open>KeyError\<close> at its first column access, and so does the generator's own summary.
\<close>

theorem empty_collection_counterexample:
  "perform_clv_analysis (pd_DataFrame []) = Inl (KeyError ''risk_segment'')
   \<and> generate_sample_customer_data_n (replay_rng sample_tape) (fixed_clock 0) 42 0 ([], 0)
       = Inl (KeyError ''predicted_clv'')"
  by (simp add: perform_clv_analysis_def pd_DataFrame_def generate_sample_customer_data_n_def
      generate_records_def column_def)

text \<open>
  Claim C5, amended: on a frame that has the record columns and no rows the analysis does
  not fail; the segment statistics, the top listing and the at-risk subset are empty, the
  customer count, the high-risk count, the at-risk count and the at-risk value are 0, and
  the average value is NaN.
\<close>

theorem empty_rows_analysis:
  assumes "has_columns df" and "rows df = []"
  shows "perform_clv_analysis df =
           Inr (\<lparr>segment_stats = [], top_customers = [], at_risk_valuable = [],
                 at_risk_count = 0, at_risk_clv = 0\<rparr>,
                \<lparr>total_customers = 0, avg_clv = None, high_risk_count = 0, at_risk_value = 0\<rparr>)"
  using assms
  by (simp add: perform_clv_analysis_def Let_def groupby_risk_agg_def top_rows_def nlargest_def
      at_risk_rows_def boolean_index_def mask_and_def gt_series_def series_sum_def series_mean_def)

theorem empty_rows_analysis_witness:
  "has_columns empty_rows_frame \<and> rows empty_rows_frame = []
   \<and> perform_clv_analysis empty_rows_frame =
           Inr (\<lparr>segment_stats = [], top_customers = [], at_risk_valuable = [],
                 at_risk_count = 0, at_risk_clv = 0\<rparr>,
                \<lparr>total_customers = 0, avg_clv = None, high_risk_count = 0, at_risk_value = 0\<rparr>)"
  using empty_rows_analysis[of empty_rows_frame] by (simp add: empty_rows_frame_def)

subsection \<open>The top listing\<close>

lemma nlargest_sorted: "sorted_wrt (\<lambda>a b. b \<le> a) (map key (nlargest k key xs))"
proof -
  have "sorted (map (\<lambda>r. - key r) (sort_key (\<lambda>r. - key r) xs))"
    by (rule sorted_sort_key)
  then have "sorted_wrt (\<lambda>x y. key y \<le> key x) (sort_key (\<lambda>r. - key r) xs)"
    by (simp add: sorted_wrt_map)
  then have "sorted_wrt (\<lambda>x y. key y \<le> key x) (take k (sort_key (\<lambda>r. - key r) xs))"
    by (rule sorted_wrt_take)
  then show ?thesis
    by (simp add: nlargest_def sorted_wrt_map)
qed

lemma nlargest_length: "length (nlargest k key xs) = min k (length xs)"
  by (simp add: nlargest_def min.commute)

lemma nlargest_top:
  "mset (nlargest k key xs @ drop k (sort_key (\<lambda>r. - key r) xs)) = mset xs"
  "sorted_wrt (\<lambda>a b. b \<le> a) (map key (nlargest k key xs @ drop k (sort_key (\<lambda>r. - key r) xs)))"
proof -
  show "mset (nlargest k key xs @ drop k (sort_key (\<lambda>r. - key r) xs)) = mset xs"
    by (simp add: nlargest_def)
  have "sorted (map (\<lambda>r. - key r) (sort_key (\<lambda>r. - key r) xs))"
    by (rule sorted_sort_key)
  then show "sorted_wrt (\<lambda>a b. b \<le> a) (map key (nlargest k key xs @ drop k (sort_key (\<lambda>r. - key r) xs)))"
    by (simp add: nlargest_def sorted_wrt_map)
qed

lemma perform_clv_analysis_top:
  assumes "has_columns df"
  shows "\<exists>rep res. perform_clv_analysis df = Inr (rep, res) \<and> top_customers rep = top_rows (rows df)"
  using assms by (simp add: perform_clv_analysis_def Let_def)

lemma ramp_frame: "has_columns (pd_DataFrame ramp_rows)" "rows (pd_DataFrame ramp_rows) = ramp_rows"
  "length ramp_rows = 12"
  by (simp_all add: pd_DataFrame_def ramp_rows_def)

lemma ramp_top:
  "map (\<lambda>row. fst (snd row)) (top_rows ramp_rows) = [110, 100, 90, 80, 70, 60, 50, 40, 30, 20]"
  by code_simp

text \<open>
  Claim C6, as stated: for every \<open>K\<close> the listing has length \<open>min K N\<close>, \<open>K\<close> being a
  parameter of the analysis. The analysis takes the frame only and always asks for 10 rows:
  on five records the listing has five rows, not \<open>min 3 5\<close>.
\<close>

theorem top_k_not_a_parameter_counterexample:
  "has_columns sample_frame \<and> length (rows sample_frame) = 5
   \<and> map_sum id (\<lambda>out. length (top_customers (fst out))) (perform_clv_analysis sample_frame) = Inr 5
   \<and> (5::nat) \<noteq> min 3 (length (rows sample_frame))"
proof -
  obtain rep res where an: "perform_clv_analysis sample_frame = Inr (rep, res)"
    and tc: "top_customers rep = top_rows (rows sample_frame)"
    using perform_clv_analysis_top[OF sample_frame_rows(1)] by blast
  have five: "length (rows sample_frame) = 5"
    by (simp add: sample_frame_rows(2) sample_rows_def)
  have "length (top_customers rep) = 5"
    by (simp add: tc top_rows_def nlargest_length five)
  then have "map_sum id (\<lambda>out. length (top_customers (fst out))) (perform_clv_analysis sample_frame) = Inr 5"
    by (simp add: an)
  moreover have "(5::nat) \<noteq> min 3 (length (rows sample_frame))"
    by (simp add: five)
  moreover note sample_frame_rows(1) five
  ultimately show ?thesis
    by (intro conjI)
qed

text \<open>
  Claim C6, amended: the listing is the top 10 by \<open>predicted_clv\<close>: it is sorted in
  descending order of \<open>predicted_clv\<close>, has length \<open>min 10 N\<close>, and the values left out
  can be appended to it so that the whole stays sorted and is a rearrangement of all values.
  The number 10 is a constant of the analysis.
\<close>

theorem top_ten_sorted_descending:
  assumes "has_columns df"
  shows "\<exists>rep res. perform_clv_analysis df = Inr (rep, res)
           \<and> sorted_wrt (\<lambda>a b. b \<le> a) (map (\<lambda>row. fst (snd row)) (top_customers rep))
           \<and> length (top_customers rep) = min 10 (length (rows df))
           \<and> (\<exists>rest. mset (map (\<lambda>row. fst (snd row)) (top_customers rep) @ rest)
                        = mset (map predicted_clv (rows df))
                     \<and> sorted_wrt (\<lambda>a b. b \<le> a) (map (\<lambda>row. fst (snd row)) (top_customers rep) @ rest))"
proof -
  define top where "top = nlargest 10 predicted_clv (rows df)"
  define rest where "rest = drop 10 (sort_key (\<lambda>r. - predicted_clv r) (rows df))"
  obtain rep res where an: "perform_clv_analysis df = Inr (rep, res)"
    and tc: "top_customers rep = top_rows (rows df)"
    using perform_clv_analysis_top[OF assms] by blast
  have proj: "map (\<lambda>row. fst (snd row)) (top_customers rep) = map predicted_clv top"
    by (simp add: tc top_rows_def top_def comp_def)
  have s: "sorted_wrt (\<lambda>a b. b \<le> a) (map predicted_clv top)"
    unfolding top_def by (rule nlargest_sorted)
  have l: "length (top_customers rep) = min 10 (length (rows df))"
    by (simp add: tc top_rows_def nlargest_length)
  have m: "mset (map predicted_clv top @ map predicted_clv rest) = mset (map predicted_clv (rows df))"
    using nlargest_top(1)[where k = 10 and key = predicted_clv and xs = "rows df"]
    unfolding top_def rest_def by (metis map_append mset_map)
  have t: "sorted_wrt (\<lambda>a b. b \<le> a) (map predicted_clv top @ map predicted_clv rest)"
    using nlargest_top(2)[where k = 10 and key = predicted_clv and xs = "rows df"]
    unfolding top_def rest_def by simp
  show ?thesis
    using an s l m t unfolding proj[symmetric] by blast
qed

theorem top_ten_sorted_descending_witness:
  "has_columns (pd_DataFrame ramp_rows) \<and> length (rows (pd_DataFrame ramp_rows)) = 12
   \<and> (\<exists>rep res. perform_clv_analysis (pd_DataFrame ramp_rows) = Inr (rep, res)
         \<and> map (\<lambda>row. fst (snd row)) (top_customers rep) = [110, 100, 90, 80, 70, 60, 50, 40, 30, 20]
         \<and> sorted_wrt (\<lambda>a b. b \<le> a) (map (\<lambda>row. fst (snd row)) (top_customers rep))
         \<and> length (top_customers rep) = 10)"
proof -
  obtain rep res where an: "perform_clv_analysis (pd_DataFrame ramp_rows) = Inr (rep, res)"
    and srt: "sorted_wrt (\<lambda>a b. b \<le> a) (map (\<lambda>row. fst (snd row)) (top_customers rep))"
    and len: "length (top_customers rep) = min 10 (length (rows (pd_DataFrame ramp_rows)))"
    using top_ten_sorted_descending[OF ramp_frame(1)] by blast
  obtain rep' res' where an': "perform_clv_analysis (pd_DataFrame ramp_rows) = Inr (rep', res')"
    and tc: "top_customers rep' = top_rows (rows (pd_DataFrame ramp_rows))"
    using perform_clv_analysis_top[OF ramp_frame(1)] by blast
  have "rep' = rep" using an an' by simp
  then have top: "map (\<lambda>row. fst (snd row)) (top_customers rep) = [110, 100, 90, 80, 70, 60, 50, 40, 30, 20]"
    using tc ramp_top by (simp add: ramp_frame(2))
  have "length (top_customers rep) = 10"
    using len by (simp add: ramp_frame)
  moreover have "length (rows (pd_DataFrame ramp_rows)) = 12"
    by (simp add: ramp_frame)
  moreover note an srt top ramp_frame(1)
  ultimately show ?thesis
    by (intro conjI exI[of _ rep] exI[of _ res])
qed

end
